theory Spec2Isabelle
  imports Main "HOL-Library.Word"
begin

unbundle bit_operations_syntax

section \<open>Doubles\<close>

text \<open>
  A C \<open>double\<close> is an IEEE-754 binary64 value: 64 bits, of which bit 63 is the sign,
  bits 62..52 the biased exponent and bits 51..0 the fraction. The bit pattern is the
  datum; the comparisons of the language are defined on it.
\<close>

type_synonym double = "64 word"

definition sign_bit :: "double \<Rightarrow> bool" where
  "sign_bit x = bit x 63"

definition biased_exp :: "double \<Rightarrow> nat" where
  "biased_exp x = unat (take_bit 11 (drop_bit 52 x))"

definition fraction :: "double \<Rightarrow> nat" where
  "fraction x = unat (take_bit 52 x)"

definition is_nan :: "double \<Rightarrow> bool" where
  "is_nan x = (biased_exp x = 2047 \<and> fraction x \<noteq> 0)"

definition is_inf :: "double \<Rightarrow> bool" where
  "is_inf x = (biased_exp x = 2047 \<and> fraction x = 0)"

text \<open>The literal \<open>0.0\<close>, its negative twin, and two more bit patterns.\<close>

definition pos_zero :: double where
  "pos_zero = 0"

definition neg_zero :: double where
  "neg_zero = 0x8000000000000000"

definition quiet_nan :: double where
  "quiet_nan = 0x7FF8000000000000"

definition min_subnormal :: double where
  "min_subnormal = 1"

text \<open>
  Exponent and fraction together, read as one 63-bit number, order the non-NaN doubles
  of one sign by absolute value; the sign then gives the position on the number line.
  Both zeros are at 0.
\<close>

definition magnitude :: "double \<Rightarrow> int" where
  "magnitude x = int (unat (take_bit 63 x))"

definition ordinal :: "double \<Rightarrow> int" where
  "ordinal x = (if sign_bit x then - magnitude x else magnitude x)"

text \<open>
  The operators \<open>==\<close> and \<open>>\<close> of C on doubles: a comparison with a NaN operand is
  false, and \<open>-0.0 == 0.0\<close> holds. The operator \<open>!=\<close> is the negation of \<open>==\<close>.
\<close>

definition feq :: "double \<Rightarrow> double \<Rightarrow> bool" where
  "feq a b = (\<not> is_nan a \<and> \<not> is_nan b \<and> ordinal a = ordinal b)"

definition fgt :: "double \<Rightarrow> double \<Rightarrow> bool" where
  "fgt a b = (\<not> is_nan a \<and> \<not> is_nan b \<and> ordinal b < ordinal a)"

section \<open>The platform and the world\<close>

text \<open>
  The arithmetic operators \<open>+\<close>, \<open>-\<close>, \<open>*\<close>, \<open>/\<close> on doubles and the conversion
  \<open>%.2f\<close> of \<open>printf\<close> belong to the C implementation, not to the program. They are
  taken as a parameter: every function of the program receives the platform it runs on,
  and every theorem below holds for every platform.
\<close>

record platform =
  fp_add :: "double \<Rightarrow> double \<Rightarrow> double"
  fp_sub :: "double \<Rightarrow> double \<Rightarrow> double"
  fp_mul :: "double \<Rightarrow> double \<Rightarrow> double"
  fp_div :: "double \<Rightarrow> double \<Rightarrow> double"
  printf_2f :: "double \<Rightarrow> string"

text \<open>
  The state outside the functions' own locals. The program declares no global variable;
  the one thing it writes that outlives a call is the standard output stream.
\<close>

record world =
  stdout :: string

definition printf :: "string \<Rightarrow> world \<Rightarrow> world" where
  "printf s w = w\<lparr>stdout := stdout w @ s\<rparr>"

section \<open>main.c\<close>

record CalculationResult =
  result :: double
  error_code :: int
  error_message :: string

text \<open>
  Every function takes the world and returns it with its value, so that what a function
  leaves of the world is a statement about its definition.
\<close>

definition add :: "platform \<Rightarrow> double \<Rightarrow> double \<Rightarrow> world \<Rightarrow> double \<times> world" where
  "add P a b w = (fp_add P a b, w)"

definition subtract :: "platform \<Rightarrow> double \<Rightarrow> double \<Rightarrow> world \<Rightarrow> double \<times> world" where
  "subtract P a b w = (fp_sub P a b, w)"

definition multiply :: "platform \<Rightarrow> double \<Rightarrow> double \<Rightarrow> world \<Rightarrow> double \<times> world" where
  "multiply P a b w = (fp_mul P a b, w)"

text \<open>
  \<open>divide\<close> of main.c (the name \<open>divide\<close> is taken in HOL). The local struct starts
  indeterminate; both paths assign all three fields before they return, so each path is
  the struct it returns. \<open>error_message\<close> is the C string that \<open>strcpy\<close> stores.
\<close>

definition divide_c ::
  "platform \<Rightarrow> double \<Rightarrow> double \<Rightarrow> world \<Rightarrow> CalculationResult \<times> world" where
  "divide_c P a b w =
     (if feq b pos_zero
      then (\<lparr>result = pos_zero, error_code = 1,
             error_message = ''Division by zero error''\<rparr>, w)
      else (\<lparr>result = fp_div P a b, error_code = 0, error_message = ''''\<rparr>, w))"

text \<open>
  \<open>main\<close>. The three \<open>scanf\<close> calls are represented by what they leave in \<open>num1\<close>,
  \<open>operation\<close> and \<open>num2\<close>; the prompts between them are printed whatever is read.
  The value returned is the exit status of the process.
\<close>

definition result_line :: "platform \<Rightarrow> double \<Rightarrow> string" where
  "result_line P x = ''Result: '' @ printf_2f P x @ ''\<newline>''"

definition prompts :: "world \<Rightarrow> world" where
  "prompts w0 =
     (let w1 = printf ''=== Legacy C Calculator ===\<newline>'' w0;
          w2 = printf ''Enter first number: '' w1;
          w3 = printf ''Enter operation (+, -, *, /): '' w2
      in printf ''Enter second number: '' w3)"

definition main :: "platform \<Rightarrow> double \<Rightarrow> char \<Rightarrow> double \<Rightarrow> world \<Rightarrow> int \<times> world" where
  "main P num1 operation num2 w0 =
     (let w = prompts w0 in
      if operation = CHR ''+'' then
        (let (r, w') = add P num1 num2 w in (0, printf (result_line P r) w'))
      else if operation = CHR ''-'' then
        (let (r, w') = subtract P num1 num2 w in (0, printf (result_line P r) w'))
      else if operation = CHR ''*'' then
        (let (r, w') = multiply P num1 num2 w in (0, printf (result_line P r) w'))
      else if operation = CHR ''/'' then
        (let (res, w') = divide_c P num1 num2 w in
         if error_code res = 0
         then (0, printf (result_line P (result res)) w')
         else (1, printf (''Error: '' @ error_message res @ ''\<newline>'') w'))
      else (1, printf ''Invalid operation!\<newline>'' w))"

section \<open>utils.c\<close>

definition is_positive :: "double \<Rightarrow> world \<Rightarrow> int \<times> world" where
  "is_positive number w = ((if fgt number pos_zero then 1 else 0), w)"

definition get_max :: "double \<Rightarrow> double \<Rightarrow> world \<Rightarrow> double \<times> world" where
  "get_max a b w = (if fgt a b then (a, w) else (b, w))"

section \<open>A reference platform\<close>

text \<open>
  One platform, for running the program on concrete inputs: IEEE-754 binary64
  arithmetic with rounding to nearest, ties to even, every NaN result the quiet NaN
  \<open>0x7FF8000000000000\<close>, and the \<open>%.2f\<close> conversion of glibc. No theorem about the
  program depends on it; the concrete runs below use it.

  A finite double is \<open>significand * 2 ^ exponent\<close>, with its sign.
\<close>

definition significand :: "double \<Rightarrow> nat" where
  "significand x = (if biased_exp x = 0 then fraction x else 2 ^ 52 + fraction x)"

definition exponent :: "double \<Rightarrow> int" where
  "exponent x = int (max (biased_exp x) 1) - 1075"

fun bit_length :: "nat \<Rightarrow> nat" where
  "bit_length n = (if n = 0 then 0 else Suc (bit_length (n div 2)))"

declare bit_length.simps [simp del]

definition with_sign :: "bool \<Rightarrow> nat \<Rightarrow> double" where
  "with_sign s k = (if s then neg_zero else pos_zero) + of_nat k"

definition nearest_even :: "nat \<Rightarrow> nat \<Rightarrow> nat" where
  "nearest_even n d =
     (let q = n div d; r = n mod d
      in if d < 2 * r \<or> (2 * r = d \<and> odd q) then q + 1 else q)"

text \<open>
  \<open>round_ratio s n d x\<close> is the double nearest to \<open>(n / d) * 2 ^ x\<close>, with sign
  \<open>s\<close>: \<open>e\<close> is the exponent of the leading bit of the value, raised to \<open>- 1022\<close> for
  a subnormal result; the quotient is taken in units of the last place and packed under
  the exponent field, so that a carry out of the significand moves into the exponent,
  and a result beyond the largest finite double is an infinity.
\<close>

definition round_ratio :: "bool \<Rightarrow> nat \<Rightarrow> nat \<Rightarrow> int \<Rightarrow> double" where
  "round_ratio s n d x =
     (if n = 0 then with_sign s 0
      else
        let j = int (bit_length n) - int (bit_length d);
            e = (if d * 2 ^ nat j \<le> n * 2 ^ nat (- j) then j else j - 1) + x;
            ec = max e (- 1022);
            sh = 52 - ec + x;
            m = nearest_even (n * 2 ^ nat sh) (d * 2 ^ nat (- sh));
            k = nat (ec + 1022) * 2 ^ 52 + m
        in with_sign s (min k (2047 * 2 ^ 52)))"

definition ieee_add :: "double \<Rightarrow> double \<Rightarrow> double" where
  "ieee_add a b =
     (if is_nan a \<or> is_nan b then quiet_nan
      else if is_inf a then (if is_inf b \<and> sign_bit a \<noteq> sign_bit b then quiet_nan else a)
      else if is_inf b then b
      else
        let x = min (exponent a) (exponent b);
            p = int (significand a) * 2 ^ nat (exponent a - x);
            q = int (significand b) * 2 ^ nat (exponent b - x);
            t = (if sign_bit a then - p else p) + (if sign_bit b then - q else q)
        in if t = 0 then with_sign (sign_bit a \<and> sign_bit b) 0
           else round_ratio (t < 0) (nat \<bar>t\<bar>) 1 x)"

definition ieee_sub :: "double \<Rightarrow> double \<Rightarrow> double" where
  "ieee_sub a b = ieee_add a (b XOR neg_zero)"

definition ieee_mul :: "double \<Rightarrow> double \<Rightarrow> double" where
  "ieee_mul a b =
     (let s = (sign_bit a \<noteq> sign_bit b) in
      if is_nan a \<or> is_nan b then quiet_nan
      else if is_inf a \<or> is_inf b then
        (if significand a = 0 \<or> significand b = 0 then quiet_nan
         else with_sign s (2047 * 2 ^ 52))
      else round_ratio s (significand a * significand b) 1 (exponent a + exponent b))"

definition ieee_div :: "double \<Rightarrow> double \<Rightarrow> double" where
  "ieee_div a b =
     (let s = (sign_bit a \<noteq> sign_bit b) in
      if is_nan a \<or> is_nan b then quiet_nan
      else if is_inf a then (if is_inf b then quiet_nan else with_sign s (2047 * 2 ^ 52))
      else if is_inf b then with_sign s 0
      else if significand b = 0 then
        (if significand a = 0 then quiet_nan else with_sign s (2047 * 2 ^ 52))
      else round_ratio s (significand a) (significand b) (exponent a - exponent b))"

definition digit :: "nat \<Rightarrow> char" where
  "digit n = ''0123456789'' ! n"

fun decimal :: "nat \<Rightarrow> string" where
  "decimal n = (if n < 10 then [digit n] else decimal (n div 10) @ [digit (n mod 10)])"

declare decimal.simps [simp del]

definition glibc_2f :: "double \<Rightarrow> string" where
  "glibc_2f x =
     (if sign_bit x then ''-'' else '''') @
     (if is_nan x then ''nan''
      else if is_inf x then ''inf''
      else
        let q = nearest_even (significand x * 100 * 2 ^ nat (exponent x))
                             (2 ^ nat (- exponent x))
        in decimal (q div 100) @ ''.'' @ [digit (q mod 100 div 10), digit (q mod 10)])"

definition ieee :: platform where
  "ieee = \<lparr>fp_add = ieee_add, fp_sub = ieee_sub, fp_mul = ieee_mul, fp_div = ieee_div,
           printf_2f = glibc_2f\<rparr>"

section \<open>Comparing with zero\<close>

lemma is_nan_pos_zero: "\<not> is_nan pos_zero"
  by (simp add: is_nan_def biased_exp_def pos_zero_def)

lemma ordinal_pos_zero: "ordinal pos_zero = 0"
  by (simp add: ordinal_def magnitude_def sign_bit_def pos_zero_def)

lemma ordinal_eq_0_iff: "ordinal x = 0 \<longleftrightarrow> take_bit 63 x = 0"
  by (simp add: ordinal_def magnitude_def unsigned_eq_0_iff)

lemma bit_neg_zero: "bit neg_zero n \<longleftrightarrow> n = 63"
proof -
  have "neg_zero = 2 ^ 63"
    by (simp add: neg_zero_def)
  moreover have "bit (2 ^ 63 :: double) n \<longleftrightarrow> n = 63"
    unfolding bit_exp_iff by (auto simp add: possible_bit_word)
  ultimately show ?thesis by (simp only:)
qed

text \<open>A double whose low 63 bits are clear has a zero exponent field: it is no NaN.\<close>

lemma low63_clear_exp:
  assumes "take_bit 63 x = (0::double)"
  shows "biased_exp x = 0"
proof -
  have "take_bit 11 (drop_bit 52 x) = (0::double)"
  proof (rule bit_eqI)
    fix n
    have "bit (take_bit 63 x) (52 + n) = False"
      using assms by simp
    then show "bit (take_bit 11 (drop_bit 52 x)) n = bit (0::double) n"
      by (auto simp add: bit_take_bit_iff bit_drop_bit_eq)
  qed
  then show ?thesis by (simp add: biased_exp_def)
qed

text \<open>Only two bit patterns have their low 63 bits clear: the two zeros.\<close>

lemma low63_clear_iff:
  "take_bit 63 x = (0::double) \<longleftrightarrow> x = pos_zero \<or> x = neg_zero"
proof
  assume z: "take_bit 63 x = (0::double)"
  have low: "\<not> bit x n" if "n < 63" for n
  proof -
    have "bit (take_bit 63 x) n = False" using z by simp
    with that show ?thesis by (simp add: bit_take_bit_iff)
  qed
  have split: "n < 63 \<or> n = 63" if "possible_bit TYPE(double) n" for n
  proof -
    from that have "n < 64" by (simp add: possible_bit_word)
    then show ?thesis by arith
  qed
  show "x = pos_zero \<or> x = neg_zero"
  proof (cases "bit x 63")
    case True
    have "x = neg_zero"
    proof (rule bit_eqI)
      fix n
      assume "possible_bit TYPE(double) n"
      then show "bit x n = bit neg_zero n"
        unfolding bit_neg_zero using True low split by auto
    qed
    then show ?thesis ..
  next
    case False
    have "x = 0"
    proof (rule bit_eqI)
      fix n
      assume "possible_bit TYPE(double) n"
      then show "bit x n = bit (0 :: double) n"
        using False low split by auto
    qed
    then show ?thesis by (simp add: pos_zero_def)
  qed
next
  assume "x = pos_zero \<or> x = neg_zero"
  then show "take_bit 63 x = (0::double)"
    by (auto simp add: pos_zero_def neg_zero_def)
qed

text \<open>\<open>b == 0.0\<close> holds for the two zeros and for nothing else.\<close>

lemma feq_zero_iff: "feq b pos_zero \<longleftrightarrow> b = pos_zero \<or> b = neg_zero"
proof -
  have "\<not> is_nan b" if "take_bit 63 b = (0::double)"
    using low63_clear_exp [OF that] by (simp add: is_nan_def)
  then show ?thesis
    by (auto simp add: feq_def is_nan_pos_zero ordinal_pos_zero ordinal_eq_0_iff
        low63_clear_iff [symmetric])
qed

lemma feq_pos_zero: "feq pos_zero pos_zero"
  by (simp add: feq_zero_iff)

lemma feq_neg_zero: "feq neg_zero pos_zero"
  by (simp add: feq_zero_iff)

lemma is_nan_quiet_nan: "is_nan quiet_nan"
  by (simp add: is_nan_def biased_exp_def fraction_def quiet_nan_def)

lemma not_fgt_nan: "is_nan a \<Longrightarrow> \<not> fgt a b"
  by (simp add: fgt_def)

section \<open>What the prompts print\<close>

lemma stdout_prompts:
  "prompts w = w\<lparr>stdout := stdout w @
     ''=== Legacy C Calculator ===\<newline>Enter first number: '' @
     ''Enter operation (+, -, *, /): Enter second number: ''\<rparr>"
  by (simp add: prompts_def printf_def)

section \<open>The reference platform at sample inputs\<close>

lemmas fields = sign_bit_def biased_exp_def fraction_def is_nan_def is_inf_def
  significand_def exponent_def

text \<open>\<open>10.0 / 4.0 = 2.5\<close>\<close>

lemma round_ratio_5_4: "round_ratio False 0x14000000000000 0x10000000000000 1 = 0x4004000000000000"
  unfolding round_ratio_def Let_def
  apply (simp add: bit_length.simps)
  apply (simp add: nearest_even_def Let_def)
  apply (simp add: with_sign_def pos_zero_def)
  done

lemma ieee_div_10_4: "ieee_div 0x4024000000000000 0x4010000000000000 = 0x4004000000000000"
  unfolding ieee_div_def Let_def
  by (simp add: fields round_ratio_5_4)

text \<open>\<open>10.0 + 5.0 = 15.0\<close>\<close>

lemma round_ratio_15: "round_ratio False 0x3C000000000000 (Suc 0) (- 50) = 0x402E000000000000"
  unfolding round_ratio_def Let_def
  apply (simp add: bit_length.simps)
  apply (simp add: nearest_even_def Let_def)
  apply (simp add: with_sign_def pos_zero_def)
  done

lemma ieee_add_10_5: "ieee_add 0x4024000000000000 0x4014000000000000 = 0x402E000000000000"
  unfolding ieee_add_def Let_def
  by (simp add: fields round_ratio_15)

text \<open>\<open>9.0 * 3.0 = 27.0\<close>\<close>

lemma round_ratio_27:
  "round_ratio False 34226566206162193840410986545152 (Suc 0) (- 100) = 0x403B000000000000"
  unfolding round_ratio_def Let_def
  apply (simp add: bit_length.simps)
  apply (simp add: nearest_even_def Let_def)
  apply (simp add: with_sign_def pos_zero_def)
  done

lemma ieee_mul_9_3: "ieee_mul 0x4022000000000000 0x4008000000000000 = 0x403B000000000000"
  unfolding ieee_mul_def Let_def
  by (simp add: fields round_ratio_27)

lemma glibc_2f_2_5: "glibc_2f 0x4004000000000000 = ''2.50''"
  unfolding glibc_2f_def Let_def
  apply (simp add: fields)
  apply (simp add: nearest_even_def Let_def)
  apply (simp add: decimal.simps digit_def)
  done

lemma glibc_2f_15: "glibc_2f 0x402E000000000000 = ''15.00''"
  unfolding glibc_2f_def Let_def
  apply (simp add: fields)
  apply (simp add: nearest_even_def Let_def)
  apply (simp add: decimal.simps digit_def)
  done

lemma glibc_2f_27: "glibc_2f 0x403B000000000000 = ''27.00''"
  unfolding glibc_2f_def Let_def
  apply (simp add: fields)
  apply (simp add: nearest_even_def Let_def)
  apply (simp add: decimal.simps digit_def)
  done

section \<open>The arithmetic operations\<close>

text \<open>
  C1. For every double \<open>a\<close>, \<open>divide(a, 0.0)\<close> returns a CalculationResult whose
  error code is 1, whose result is \<open>0.0\<close> and whose error message is exactly
  "Division by zero error". It holds on every platform and for every bit pattern of
  \<open>a\<close>, the NaNs and the infinities included; the world is returned as it was.
\<close>

theorem divide_by_zero:
  "divide_c P a pos_zero w =
     (\<lparr>result = pos_zero, error_code = 1, error_message = ''Division by zero error''\<rparr>, w)"
  by (simp add: divide_c_def feq_pos_zero)

text \<open>
  C2. For every pair of doubles \<open>a\<close>, \<open>b\<close> with \<open>b != 0.0\<close>, \<open>divide(a, b)\<close> returns
  a CalculationResult whose error code is 0, whose result is the platform's quotient
  \<open>a / b\<close> and whose error message is the empty string. \<open>b != 0.0\<close> is the negation
  of \<open>b == 0.0\<close>, so a NaN divisor is among the cases.
\<close>

theorem divide_nonzero:
  assumes "\<not> feq b pos_zero"
  shows "fst (divide_c P a b w) =
           \<lparr>result = fp_div P a b, error_code = 0, error_message = ''''\<rparr>"
  using assms by (simp add: divide_c_def)

text \<open>On the reference platform, \<open>divide(10.0, 4.0)\<close> is the success result \<open>2.5\<close>.\<close>

theorem divide_nonzero_witness:
  "\<not> feq 0x4010000000000000 pos_zero \<and>
   fst (divide_c ieee 0x4024000000000000 0x4010000000000000 \<lparr>stdout = ''''\<rparr>) =
     \<lparr>result = 0x4004000000000000, error_code = 0, error_message = ''''\<rparr>"
proof -
  have nz: "\<not> feq 0x4010000000000000 pos_zero"
    unfolding feq_zero_iff by (simp add: pos_zero_def neg_zero_def)
  show ?thesis
    using nz divide_nonzero [OF nz, of ieee "0x4024000000000000" "\<lparr>stdout = ''''\<rparr>"]
    by (simp add: ieee_def ieee_div_10_4)
qed

text \<open>
  C3. Every CalculationResult that \<open>divide\<close> returns satisfies the invariant of the
  data model: error code 1 implies that the result is \<open>0.0\<close> (the bit pattern of
  \<open>+0.0\<close>, which also compares equal to \<open>0.0\<close>) and that the error message is not
  empty; error code 0 implies that the error message is empty. The error code is never
  anything but 0 or 1.
\<close>

theorem divide_invariant:
  assumes "r = fst (divide_c P a b w)"
  shows "(error_code r = 1 \<longrightarrow>
            result r = pos_zero \<and> feq (result r) pos_zero \<and> error_message r \<noteq> '''') \<and>
         (error_code r = 0 \<longrightarrow> error_message r = '''') \<and>
         (error_code r = 0 \<or> error_code r = 1)"
  using assms by (simp add: divide_c_def feq_pos_zero)

text \<open>Both error codes occur: \<open>divide(10.0, 0.0)\<close> fails, \<open>divide(10.0, 4.0)\<close> succeeds.\<close>

theorem divide_invariant_witness:
  "error_code (fst (divide_c ieee 0x4024000000000000 pos_zero \<lparr>stdout = ''''\<rparr>)) = 1 \<and>
   result (fst (divide_c ieee 0x4024000000000000 pos_zero \<lparr>stdout = ''''\<rparr>)) = pos_zero \<and>
   error_message (fst (divide_c ieee 0x4024000000000000 pos_zero \<lparr>stdout = ''''\<rparr>)) \<noteq> '''' \<and>
   error_code
     (fst (divide_c ieee 0x4024000000000000 0x4010000000000000 \<lparr>stdout = ''''\<rparr>)) = 0 \<and>
   error_message
     (fst (divide_c ieee 0x4024000000000000 0x4010000000000000 \<lparr>stdout = ''''\<rparr>)) = ''''"
proof -
  have nz: "\<not> feq 0x4010000000000000 pos_zero"
    unfolding feq_zero_iff by (simp add: pos_zero_def neg_zero_def)
  have c1: "error_code (fst (divide_c ieee 0x4024000000000000 pos_zero \<lparr>stdout = ''''\<rparr>)) = 1"
    by (simp add: divide_c_def feq_pos_zero)
  have c0: "error_code
      (fst (divide_c ieee 0x4024000000000000 0x4010000000000000 \<lparr>stdout = ''''\<rparr>)) = 0"
    using nz by (simp add: divide_c_def)
  show ?thesis
    using c1 c0
      divide_invariant [OF refl, of ieee "0x4024000000000000" pos_zero "\<lparr>stdout = ''''\<rparr>"]
      divide_invariant [OF refl, of ieee "0x4024000000000000" "0x4010000000000000"
        "\<lparr>stdout = ''''\<rparr>"]
    by simp
qed

text \<open>
  C6. For every pair of doubles \<open>a\<close>, \<open>b\<close>: \<open>add(a, b)\<close> is the platform's \<open>a + b\<close>,
  \<open>subtract(a, b)\<close> its \<open>a - b\<close> and \<open>multiply(a, b)\<close> its \<open>a * b\<close>, bit for bit.
  None of the three has a failure result: each returns a double for every input.
\<close>

theorem arithmetic_operations:
  "fst (add P a b w) = fp_add P a b \<and>
   fst (subtract P a b w) = fp_sub P a b \<and>
   fst (multiply P a b w) = fp_mul P a b"
  by (simp add: add_def subtract_def multiply_def)

text \<open>
  C7. \<open>divide\<close> takes its failure branch exactly when the second operand compares equal
  to \<open>0.0\<close>: error code 1 if \<open>b == 0.0\<close>, error code 0 if not. The comparison is exact:
  \<open>b == 0.0\<close> holds for the bit patterns of \<open>+0.0\<close> and \<open>-0.0\<close> and for no other, so
  even the smallest subnormal, \<open>2 ^ -1074\<close>, is divided by.
\<close>

theorem divide_fails_iff_zero:
  "(error_code (fst (divide_c P a b w)) = 1) = feq b pos_zero \<and>
   (error_code (fst (divide_c P a b w)) = 0) = (\<not> feq b pos_zero) \<and>
   feq b pos_zero = (b = pos_zero \<or> b = neg_zero) \<and>
   fst (divide_c P a min_subnormal w) =
     \<lparr>result = fp_div P a min_subnormal, error_code = 0, error_message = ''''\<rparr>"
proof -
  have "\<not> feq min_subnormal pos_zero"
    unfolding feq_zero_iff by (simp add: min_subnormal_def pos_zero_def neg_zero_def)
  then show ?thesis
    by (simp add: divide_c_def feq_zero_iff)
qed

text \<open>
  C8. Every arithmetic operation is deterministic and mutates no global state: the
  value it returns is the same in every world it is called in, and it returns the world
  it was given. So two calls with the same inputs return identical results, whatever
  happened between them.
\<close>

theorem operations_pure:
  "add P a b w = (fst (add P a b w'), w) \<and>
   subtract P a b w = (fst (subtract P a b w'), w) \<and>
   multiply P a b w = (fst (multiply P a b w'), w) \<and>
   divide_c P a b w = (fst (divide_c P a b w'), w)"
  by (simp add: add_def subtract_def multiply_def divide_c_def)

text \<open>
  C9. For every double \<open>a\<close>, \<open>divide(a, -0.0)\<close> takes the failure branch, since
  \<open>-0.0 == 0.0\<close>: error code 1 and result \<open>+0.0\<close>. The value returned does not
  mention the platform's division: \<open>a / -0.0\<close> is not computed.
\<close>

theorem divide_by_negative_zero:
  "feq neg_zero pos_zero \<and>
   divide_c P a neg_zero w =
     (\<lparr>result = pos_zero, error_code = 1, error_message = ''Division by zero error''\<rparr>, w)"
  by (simp add: divide_c_def feq_neg_zero)

section \<open>The driver\<close>

text \<open>
  C4. When the operator read is \<open>/\<close>, the driver calls \<open>divide\<close> on the two operands,
  after the prompts. If the error code returned is 0 it prints "Result: ", the result
  in the \<open>%.2f\<close> conversion and a newline, and the exit status is 0; if the error code
  is 1 it prints "Error: ", the error message and a newline, and the exit status is 1.
  No other error code comes back.
\<close>

theorem main_divide:
  assumes "res = fst (divide_c P num1 num2 (prompts w))"
  shows "(error_code res = 0 \<longrightarrow>
            main P num1 CHR ''/'' num2 w =
              (0, printf (''Result: '' @ printf_2f P (result res) @ ''\<newline>'') (prompts w))) \<and>
         (error_code res = 1 \<longrightarrow>
            main P num1 CHR ''/'' num2 w =
              (1, printf (''Error: '' @ error_message res @ ''\<newline>'') (prompts w))) \<and>
         (error_code res = 0 \<or> error_code res = 1)"
  using assms by (simp add: main_def divide_c_def result_line_def)

text \<open>
  On the reference platform: \<open>10 / 4\<close> prints "Result: 2.50" and exits with 0, and
  \<open>7 / 0\<close> prints "Error: Division by zero error" and exits with 1.
\<close>

theorem main_divide_witness:
  "error_code (fst (divide_c ieee 0x4024000000000000 0x4010000000000000
     (prompts \<lparr>stdout = ''''\<rparr>))) = 0 \<and>
   main ieee 0x4024000000000000 CHR ''/'' 0x4010000000000000 \<lparr>stdout = ''''\<rparr> =
     (0, \<lparr>stdout = ''=== Legacy C Calculator ===\<newline>Enter first number: '' @
                   ''Enter operation (+, -, *, /): Enter second number: '' @
                   ''Result: 2.50\<newline>''\<rparr>) \<and>
   error_code (fst (divide_c ieee 0x401C000000000000 pos_zero
     (prompts \<lparr>stdout = ''''\<rparr>))) = 1 \<and>
   main ieee 0x401C000000000000 CHR ''/'' pos_zero \<lparr>stdout = ''''\<rparr> =
     (1, \<lparr>stdout = ''=== Legacy C Calculator ===\<newline>Enter first number: '' @
                   ''Enter operation (+, -, *, /): Enter second number: '' @
                   ''Error: Division by zero error\<newline>''\<rparr>)"
proof -
  have nz: "\<not> feq 0x4010000000000000 pos_zero"
    unfolding feq_zero_iff by (simp add: pos_zero_def neg_zero_def)
  have ok: "fst (divide_c ieee 0x4024000000000000 0x4010000000000000 v) =
      \<lparr>result = 0x4004000000000000, error_code = 0, error_message = ''''\<rparr>" for v
    using nz by (simp add: divide_c_def ieee_def ieee_div_10_4)
  have err: "fst (divide_c ieee 0x401C000000000000 pos_zero v) =
      \<lparr>result = pos_zero, error_code = 1, error_message = ''Division by zero error''\<rparr>" for v
    by (simp add: divide_c_def feq_pos_zero)
  have fmt: "printf_2f ieee 0x4004000000000000 = ''2.50''"
    by (simp add: ieee_def glibc_2f_2_5)
  show ?thesis
    using main_divide [OF refl, of ieee "0x4024000000000000" "0x4010000000000000"
        "\<lparr>stdout = ''''\<rparr>"]
      main_divide [OF refl, of ieee "0x401C000000000000" pos_zero "\<lparr>stdout = ''''\<rparr>"]
    by (simp add: ok err fmt stdout_prompts printf_def)
qed

text \<open>
  C5. For every operator character other than \<open>+\<close>, \<open>-\<close>, \<open>*\<close> and \<open>/\<close>, the driver
  prints "Invalid operation!" after the prompts and the exit status is 1. No arithmetic
  operation is attempted: the outcome is the same for all operands and all platforms.
\<close>

theorem main_invalid_operation:
  assumes "operation \<noteq> CHR ''+''" and "operation \<noteq> CHR ''-''"
    and "operation \<noteq> CHR ''*''" and "operation \<noteq> CHR ''/''"
  shows "main P num1 operation num2 w =
           (1, printf ''Invalid operation!\<newline>'' (prompts w)) \<and>
         main P num1 operation num2 w = main P' num1' operation num2' w"
  using assms by (simp add: main_def)

text \<open>The operator \<open>%\<close> between \<open>4\<close> and \<open>2\<close>.\<close>

theorem main_invalid_operation_witness:
  "CHR ''%'' \<noteq> CHR ''+'' \<and> CHR ''%'' \<noteq> CHR ''-'' \<and>
   CHR ''%'' \<noteq> CHR ''*'' \<and> CHR ''%'' \<noteq> CHR ''/'' \<and>
   main ieee 0x4010000000000000 CHR ''%'' 0x4000000000000000 \<lparr>stdout = ''''\<rparr> =
     (1, \<lparr>stdout = ''=== Legacy C Calculator ===\<newline>Enter first number: '' @
                   ''Enter operation (+, -, *, /): Enter second number: '' @
                   ''Invalid operation!\<newline>''\<rparr>)"
proof -
  have ne: "CHR ''%'' \<noteq> CHR ''+''" "CHR ''%'' \<noteq> CHR ''-''"
    "CHR ''%'' \<noteq> CHR ''*''" "CHR ''%'' \<noteq> CHR ''/''"
    by simp_all
  show ?thesis
    using main_invalid_operation [OF ne, of ieee "0x4010000000000000" "0x4000000000000000"
        "\<lparr>stdout = ''''\<rparr>" ieee "0x4010000000000000" "0x4000000000000000"]
    by (simp add: stdout_prompts printf_def)
qed

section \<open>The maximum of two doubles\<close>

text \<open>
  C10. For every pair of doubles \<open>a\<close>, \<open>b\<close>, \<open>get_max(a, b)\<close> returns \<open>a\<close> if
  \<open>a > b\<close> and \<open>b\<close> otherwise. When \<open>a\<close> is a NaN the comparison is false and
  \<open>b\<close> is returned, so the function is not symmetric: the maximum of NaN and \<open>1.0\<close>
  is \<open>1.0\<close>, the maximum of \<open>1.0\<close> and NaN is NaN.
\<close>

theorem get_max_spec:
  "fst (get_max a b w) = (if fgt a b then a else b) \<and>
   (is_nan a \<longrightarrow> \<not> fgt a b \<and> fst (get_max a b w) = b) \<and>
   fst (get_max quiet_nan 0x3FF0000000000000 w) = 0x3FF0000000000000 \<and>
   fst (get_max 0x3FF0000000000000 quiet_nan w) = quiet_nan \<and>
   fst (get_max quiet_nan 0x3FF0000000000000 w) \<noteq> fst (get_max 0x3FF0000000000000 quiet_nan w)"
proof -
  have "\<not> fgt quiet_nan x" and "\<not> fgt x quiet_nan" for x
    by (simp_all add: fgt_def is_nan_quiet_nan)
  then show ?thesis
    by (simp add: get_max_def not_fgt_nan quiet_nan_def)
qed

theorem get_max_spec_witness:
  "is_nan quiet_nan \<and>
   fst (get_max quiet_nan 0x3FF0000000000000 \<lparr>stdout = ''''\<rparr>) = 0x3FF0000000000000"
  using get_max_spec [of quiet_nan "0x3FF0000000000000" "\<lparr>stdout = ''''\<rparr>"]
  by (simp add: is_nan_quiet_nan)

section \<open>End-to-end runs on the reference platform\<close>

text \<open>Input \<open>10\<close>, \<open>+\<close>, \<open>5\<close>: the output ends in "Result: 15.00", exit status 0.\<close>

lemma run_add:
  "main ieee 0x4024000000000000 CHR ''+'' 0x4014000000000000 \<lparr>stdout = ''''\<rparr> =
     (0, \<lparr>stdout = ''=== Legacy C Calculator ===\<newline>Enter first number: '' @
                   ''Enter operation (+, -, *, /): Enter second number: '' @
                   ''Result: 15.00\<newline>''\<rparr>)"
  by (simp add: main_def add_def result_line_def ieee_def ieee_add_10_5 glibc_2f_15
      stdout_prompts printf_def)

text \<open>Input \<open>9\<close>, \<open>*\<close>, \<open>3\<close>: the output ends in "Result: 27.00", exit status 0.\<close>

lemma run_multiply:
  "main ieee 0x4022000000000000 CHR ''*'' 0x4008000000000000 \<lparr>stdout = ''''\<rparr> =
     (0, \<lparr>stdout = ''=== Legacy C Calculator ===\<newline>Enter first number: '' @
                   ''Enter operation (+, -, *, /): Enter second number: '' @
                   ''Result: 27.00\<newline>''\<rparr>)"
  by (simp add: main_def multiply_def result_line_def ieee_def ieee_mul_9_3 glibc_2f_27
      stdout_prompts printf_def)

end
